theory Spec2Isabelle
  imports Complex_Main
begin

section \<open>Nexcart: the storefront of app.py\<close>

text \<open>
  The application is one Flask module: three tables (User, Product, Order), a session that
  holds the visitor's cart, and request handlers that read and write both. The handlers are
  modelled as functions from the state before the request to an outcome, the messages
  flashed and the state after it.
\<close>

subsection \<open>Floats\<close>

text \<open>
  A Python float is an IEEE double: a finite value, an infinity or a NaN. A finite value is
  given by the real number it denotes; the sign of zero is not kept.
\<close>

datatype double = Finite real | PInf | NInf | NaN

text \<open>
  Rounding to the nearest double, ties to even. \<open>double_exp m 0\<close> is the exponent \<open>e\<close> of
  the last place of a magnitude \<open>m\<close>: the one with \<open>2 ^ 52 \<le> m / 2 ^ e < 2 ^ 53\<close>, and no
  less than - 1074, where the subnormal doubles end.
\<close>

function double_exp :: "real \<Rightarrow> int \<Rightarrow> int" where
  "double_exp m e =
     (if 2 ^ 53 \<le> m then double_exp (m / 2) (e + 1)
      else if m < 2 ^ 52 \<and> - 1074 < e then double_exp (m * 2) (e - 1)
      else e)"
  by pat_completeness auto
termination
proof (relation "(\<lambda>(m, e). if 2 ^ 53 \<le> m then nat \<lceil>m\<rceil> else 0) <*mlex*>
    measure (\<lambda>(m, e). nat (e + 1074))")
  show "wf ((\<lambda>(m::real, e::int). if 2 ^ 53 \<le> m then nat \<lceil>m\<rceil> else 0) <*mlex*>
    measure (\<lambda>(m, e). nat (e + 1074)))"
    by (simp add: wf_mlex)
next
  fix m :: real and e :: int
  assume big: "2 ^ 53 \<le> m"
  have "\<lceil>m / 2\<rceil> < \<lceil>m\<rceil>"
  proof -
    have "real_of_int \<lceil>m / 2\<rceil> < m / 2 + 1" by linarith
    also have "\<dots> \<le> m" using big by simp
    also have "\<dots> \<le> real_of_int \<lceil>m\<rceil>" by linarith
    finally show ?thesis by linarith
  qed
  moreover have "0 < \<lceil>m\<rceil>" using big by (simp add: less_ceiling_iff)
  ultimately have "(if 2 ^ 53 \<le> m / 2 then nat \<lceil>m / 2\<rceil> else 0) < nat \<lceil>m\<rceil>"
    by auto
  with big show "((m / 2, e + 1), (m, e)) \<in>
      (\<lambda>(m, e). if 2 ^ 53 \<le> m then nat \<lceil>m\<rceil> else 0) <*mlex*>
        measure (\<lambda>(m, e). nat (e + 1074))"
    by (simp add: mlex_less)
next
  fix m :: real and e :: int
  assume "\<not> 2 ^ 53 \<le> m" and small: "m < 2 ^ 52 \<and> - 1074 < e"
  then have "\<not> 2 ^ 53 \<le> m * 2" by simp
  with \<open>\<not> 2 ^ 53 \<le> m\<close> small show "((m * 2, e - 1), (m, e)) \<in>
      (\<lambda>(m, e). if 2 ^ 53 \<le> m then nat \<lceil>m\<rceil> else 0) <*mlex*>
        measure (\<lambda>(m, e). nat (e + 1074))"
    by (auto intro!: mlex_leq simp: mlex_less)
qed

declare double_exp.simps [simp del]

definition pow2 :: "int \<Rightarrow> real" where
  "pow2 e = (if 0 \<le> e then 2 ^ nat e else 1 / 2 ^ nat (- e))"

definition round_half_even :: "real \<Rightarrow> int" where
  "round_half_even y =
     (let f = \<lfloor>y\<rfloor>; d = y - of_int f
      in if d < 1 / 2 then f else if 1 / 2 < d then f + 1 else if even f then f else f + 1)"

definition round_double :: "real \<Rightarrow> real" where
  "round_double x =
     (if x = 0 then 0
      else (let q = pow2 (double_exp \<bar>x\<bar> 0) in of_int (round_half_even (x / q)) * q))"

text \<open>The double of an exact result: the rounded value, or an infinity when that overflows.\<close>

definition double_of_real :: "real \<Rightarrow> double" where
  "double_of_real x =
     (let r = round_double x
      in if 2 ^ 1024 \<le> r then PInf else if r \<le> - (2 ^ 1024) then NInf else Finite r)"

fun fneg :: "double \<Rightarrow> double" where
  "fneg (Finite x) = Finite (- x)"
| "fneg PInf = NInf"
| "fneg NInf = PInf"
| "fneg NaN = NaN"

text \<open>Addition: the exact sum of two finite values, rounded.\<close>

fun fadd :: "double \<Rightarrow> double \<Rightarrow> double" where
  "fadd (Finite x) (Finite y) = double_of_real (x + y)"
| "fadd NaN y = NaN"
| "fadd x NaN = NaN"
| "fadd PInf NInf = NaN"
| "fadd NInf PInf = NaN"
| "fadd PInf y = PInf"
| "fadd x PInf = PInf"
| "fadd NInf y = NInf"
| "fadd x NInf = NInf"

definition fsub :: "double \<Rightarrow> double \<Rightarrow> double" where
  "fsub x y = fadd x (fneg y)"

definition is_finite :: "double \<Rightarrow> bool" where
  "is_finite x = (case x of Finite r \<Rightarrow> True | _ \<Rightarrow> False)"

text \<open>\<open>fabs(x) >= fabs(y)\<close>; a comparison with a NaN is false.\<close>

fun fabs_ge :: "double \<Rightarrow> double \<Rightarrow> bool" where
  "fabs_ge NaN y = False"
| "fabs_ge x NaN = False"
| "fabs_ge (Finite x) (Finite y) = (\<bar>y\<bar> \<le> \<bar>x\<bar>)"
| "fabs_ge (Finite x) y = False"
| "fabs_ge x y = True"

text \<open>
  The builtin \<open>sum\<close> over floats, started at the integer 0. Up to CPython 3.11 it adds from
  the left. From CPython 3.12 on it adds the first item to 0 and then carries a compensation
  \<open>c\<close> for the rounding of each further addition (Neumaier's method), which it adds at the
  end when it is finite and not zero. The source does not fix the interpreter, so the
  handler that calls \<open>sum\<close> takes the variant as a parameter.
\<close>

datatype summation = Left_to_right | Compensated

fun neumaier :: "double \<Rightarrow> double \<Rightarrow> double list \<Rightarrow> double" where
  "neumaier f_result c [] = (if c \<noteq> Finite 0 \<and> is_finite c then fadd f_result c else f_result)"
| "neumaier f_result c (x # xs) =
     (let t = fadd f_result x;
          c' = (if fabs_ge f_result x then fadd c (fadd (fsub f_result t) x)
                else fadd c (fadd (fsub x t) f_result))
      in neumaier t c' xs)"

fun py_sum :: "summation \<Rightarrow> double list \<Rightarrow> double" where
  "py_sum Left_to_right xs = foldl fadd (Finite 0) xs"
| "py_sum Compensated [] = Finite 0"
| "py_sum Compensated (x # xs) = neumaier (fadd (Finite 0) x) (Finite 0) xs"

subsection \<open>Tables\<close>

text \<open>
  A table is the list of its rows in insertion order. Python's unbounded integers are
  \<open>int\<close>. A product's \<open>price\<close> is the value of a finite double (the infinities and NaN, which
  \<open>float\<close> also reads, are not prices of the model); an order's \<open>total_price\<close> is a double.
  The primary key \<open>id\<close> of each class is named after its table (\<open>user_id\<close>, \<open>prod_id\<close>,
  \<open>order_id\<close>), and the \<open>image\<close> column is \<open>image_file\<close>.
\<close>

record user =
  user_id :: int
  username :: string
  password_hash :: string
  is_admin :: bool

record product =
  prod_id :: int
  name :: string
  price :: real
  image_file :: "string option"
  description :: string
  category :: string

record order =
  order_id :: int
  customer_name :: string
  address :: string
  total_price :: double
  status :: string

text \<open>
  The state: the three tables, the files saved under the upload folder, and the session of
  the visitor: \<open>session['cart']\<close> (\<open>None\<close> while the key is absent) and the user id that
  \<open>login_user\<close> stores.
\<close>

record world =
  users :: "user list"
  products :: "product list"
  orders :: "order list"
  uploads :: "string list"
  session_cart :: "int list option"
  session_user :: "int option"

subsection \<open>Requests and responses\<close>

datatype http_method = GET | POST

text \<open>\<open>request.form\<close>, \<open>request.args\<close> and \<open>request.files\<close> are dictionaries read with \<open>.get\<close>.\<close>

type_synonym fields = "string \<rightharpoonup> string"

datatype error =
  IntegrityError | ValueError | TypeError | AttributeError | OverflowError | OperationalError

datatype endpoint = Home | Login | Register | Shop_page | View_cart | Url string

datatype response =
    Redirect endpoint
  | Register_html
  | Products_html "product list"
  | Cart_html "product list" double
  | Checkout_html double
  | Success_html "string option"
  | Admin_html "product list"

text \<open>A handler returns a response or lets an exception escape (the request fails).\<close>

datatype outcome = Returned response | Raised error

type_synonym flash = "string \<times> string"

type_synonym result = "outcome \<times> flash list \<times> world"

definition after :: "result \<Rightarrow> world" where
  "after r = snd (snd r)"

subsection \<open>Queries\<close>

text \<open>
  The database is SQLite (by the configured URI), whose integers are signed and 64 bits
  wide. Binding a Python integer outside that range as a query parameter raises
  \<open>OverflowError\<close>.
\<close>

definition sqlite_int :: "int \<Rightarrow> bool" where
  "sqlite_int i = (- (2 ^ 63) \<le> i \<and> i < 2 ^ 63)"

text \<open>
  \<open>Product.query.get(i)\<close>: the row with primary key \<open>i\<close>, or \<open>None\<close>; the key is bound as a
  parameter of the query.
\<close>

definition product_get :: "product list \<Rightarrow> int \<Rightarrow> error + product option" where
  "product_get ps i =
     (if sqlite_int i then Inr (find (\<lambda>p. prod_id p = i) ps) else Inl OverflowError)"

text \<open>\<open>load_user\<close>: the user whose key the session holds, a key the database gave.\<close>

definition user_get :: "user list \<Rightarrow> int \<Rightarrow> user option" where
  "user_get us i = find (\<lambda>u. user_id u = i) us"

text \<open>
  The key an insert gives a row whose \<open>id\<close> is not set: 1 in an empty table, else one more
  than the largest key present.
\<close>

fun next_id :: "int list \<Rightarrow> int" where
  "next_id [] = 1"
| "next_id (i # is) = fold max is i + 1"

subsection \<open>The cart\<close>

text \<open>\<open>session.get('cart', [])\<close>.\<close>

definition cart_ids :: "world \<Rightarrow> int list" where
  "cart_ids w = (case session_cart w of None \<Rightarrow> [] | Some c \<Rightarrow> c)"

text \<open>The context processor: \<open>cart_count = len(cart)\<close>.\<close>

definition inject_cart_count :: "world \<Rightarrow> nat" where
  "inject_cart_count w = length (cart_ids w)"

text \<open>
  Python's \<open>list.remove(x)\<close>: deletes the first element equal to \<open>x\<close>, raises
  \<open>ValueError\<close> when there is none.
\<close>

fun list_remove :: "int list \<Rightarrow> int \<Rightarrow> error + int list" where
  "list_remove [] x = Inl ValueError"
| "list_remove (y # ys) x =
     (if y = x then Inr ys
      else (case list_remove ys x of Inl e \<Rightarrow> Inl e | Inr zs \<Rightarrow> Inr (y # zs)))"

text \<open>
  \<open>add_to_cart\<close>: creates the key when it is absent, appends the id, and goes back to the
  referring page, or to the shop when the request names none.
\<close>

definition add_to_cart :: "world \<Rightarrow> int \<Rightarrow> string option \<Rightarrow> result" where
  "add_to_cart w product_id referrer =
     (let w1 = (if session_cart w = None then w\<lparr>session_cart := Some []\<rparr> else w);
          cart_list = cart_ids w1 @ [product_id];
          w2 = w1\<lparr>session_cart := Some cart_list\<rparr>
      in (Returned (Redirect (case referrer of
                                None \<Rightarrow> Shop_page
                              | Some r \<Rightarrow> if r = [] then Shop_page else Url r)),
          [(''Item added to cart!'', ''success'')], w2))"

text \<open>
  \<open>remove_from_cart\<close>: only with the key present and the id in the list does it remove,
  store the list back and flash; in every case it goes to the cart view.
\<close>

definition remove_from_cart :: "world \<Rightarrow> int \<Rightarrow> result" where
  "remove_from_cart w product_id =
     (case session_cart w of
        None \<Rightarrow> (Returned (Redirect View_cart), [], w)
      | Some cart_list \<Rightarrow>
          if product_id \<in> set cart_list then
            (case list_remove cart_list product_id of
               Inl e \<Rightarrow> (Raised e, [], w)
             | Inr cart_list' \<Rightarrow>
                 (Returned (Redirect View_cart), [(''Item removed.'', ''info'')],
                  w\<lparr>session_cart := Some cart_list'\<rparr>))
          else (Returned (Redirect View_cart), [], w))"

text \<open>A visitor's cart requests, run one after the other.\<close>

datatype cart_op = Add int "string option" | Remove int

fun cart_request :: "world \<Rightarrow> cart_op \<Rightarrow> result" where
  "cart_request w (Add i referrer) = add_to_cart w i referrer"
| "cart_request w (Remove i) = remove_from_cart w i"

fun run_cart :: "world \<Rightarrow> cart_op list \<Rightarrow> world" where
  "run_cart w [] = w"
| "run_cart w (op # ops) = run_cart (after (cart_request w op)) ops"

text \<open>
  The cart contract in the specification's words: \<open>add\<close> appends, \<open>remove\<close> deletes the
  first occurrence and does nothing when there is none, \<open>count\<close> is the number of entries.
\<close>

fun spec_cart_op :: "int list \<Rightarrow> cart_op \<Rightarrow> int list" where
  "spec_cart_op xs (Add i referrer) = xs @ [i]"
| "spec_cart_op xs (Remove i) = remove1 i xs"

subsection \<open>The cart view\<close>

text \<open>
  \<open>view_cart\<close> walks the cart with two accumulators: each id is looked up, and a product that
  is found is appended to \<open>cart_items\<close> and its price added to the running total, which starts
  at 0. An id that is not found is passed over. Nothing catches what a lookup raises.
\<close>

fun view_cart_loop ::
  "product list \<Rightarrow> int list \<Rightarrow> product list \<Rightarrow> double \<Rightarrow> error + product list \<times> double" where
  "view_cart_loop ps [] cart_items total_price' = Inr (cart_items, total_price')"
| "view_cart_loop ps (p_id # rest) cart_items total_price' =
     (case product_get ps p_id of
        Inl e \<Rightarrow> Inl e
      | Inr None \<Rightarrow> view_cart_loop ps rest cart_items total_price'
      | Inr (Some item) \<Rightarrow>
          view_cart_loop ps rest (cart_items @ [item]) (fadd total_price' (Finite (price item))))"

definition view_cart :: "world \<Rightarrow> result" where
  "view_cart w =
     (case view_cart_loop (products w) (cart_ids w) [] (Finite 0) of
        Inl e \<Rightarrow> (Raised e, [], w)
      | Inr (cart_items, total_price') \<Rightarrow> (Returned (Cart_html cart_items total_price'), [], w))"

text \<open>
  The line items in the specification's words: the cart entries that resolve to a row of
  the Product table, in cart order, one for each occurrence.
\<close>

definition line_items :: "product list \<Rightarrow> int list \<Rightarrow> product list" where
  "line_items ps cart =
     concat (map (\<lambda>i. case find (\<lambda>p. prod_id p = i) ps of None \<Rightarrow> [] | Some p \<Rightarrow> [p]) cart)"

text \<open>The prices of a list of products, as the floats that are added.\<close>

abbreviation prices :: "product list \<Rightarrow> double list" where
  "prices items \<equiv> map (\<lambda>p. Finite (price p)) items"

subsection \<open>Checkout\<close>

text \<open>
  The list that \<open>checkout\<close> builds: for each id of the cart in turn, the lookup in the
  condition, and for an id that is found the price of the row that the second lookup of the
  same id returns.
\<close>

fun checkout_prices :: "product list \<Rightarrow> int list \<Rightarrow> error + double list" where
  "checkout_prices ps [] = Inr []"
| "checkout_prices ps (i # rest) =
     (case product_get ps i of
        Inl e \<Rightarrow> Inl e
      | Inr None \<Rightarrow> checkout_prices ps rest
      | Inr (Some found) \<Rightarrow>
          (case product_get ps i of
             Inl e \<Rightarrow> Inl e
           | Inr None \<Rightarrow> Inl AttributeError
           | Inr (Some p) \<Rightarrow>
               (case checkout_prices ps rest of
                  Inl e \<Rightarrow> Inl e
                | Inr xs \<Rightarrow> Inr (Finite (price p) # xs))))"

definition checkout_total :: "summation \<Rightarrow> product list \<Rightarrow> int list \<Rightarrow> error + double" where
  "checkout_total sv ps cart =
     (case checkout_prices ps cart of Inl e \<Rightarrow> Inl e | Inr xs \<Rightarrow> Inr (py_sum sv xs))"

text \<open>
  Adding and committing an Order. \<open>customer_name\<close>, \<open>address\<close> and \<open>total_price\<close> are declared
  \<open>nullable=False\<close>: the insert of a row where one of them is \<open>None\<close> is refused by the
  database and the commit raises \<open>IntegrityError\<close>; SQLite stores a NaN as NULL. \<open>status\<close>
  takes its default.
\<close>

definition order_commit ::
  "order list \<Rightarrow> string option \<Rightarrow> string option \<Rightarrow> double \<Rightarrow> error + order list" where
  "order_commit os customer_name' address' total_price' =
     (case customer_name' of
        None \<Rightarrow> Inl IntegrityError
      | Some n \<Rightarrow>
          (case address' of
             None \<Rightarrow> Inl IntegrityError
           | Some a \<Rightarrow>
               if total_price' = NaN then Inl IntegrityError
               else Inr (os @ [\<lparr>order_id = next_id (map order_id os), customer_name = n,
                                address = a, total_price = total_price',
                                status = ''Pending''\<rparr>])))"

text \<open>
  \<open>checkout\<close>: an empty cart is turned away before anything else. Otherwise the total is
  computed from the products as they are now; a POST stores the order and pops the cart
  from the session, a GET shows the total. Nothing catches what a lookup or the commit
  raises.
\<close>

definition checkout :: "summation \<Rightarrow> world \<Rightarrow> http_method \<Rightarrow> fields \<Rightarrow> result" where
  "checkout sv w method form =
     (let cart = cart_ids w in
      if cart = [] then
        (Returned (Redirect Shop_page), [(''Your cart is empty.'', ''warning'')], w)
      else
        (case checkout_total sv (products w) cart of
           Inl e \<Rightarrow> (Raised e, [], w)
         | Inr total_price' \<Rightarrow>
             if method = POST then
               (let customer_name' = form ''name''; address' = form ''address'' in
                case order_commit (orders w) customer_name' address' total_price' of
                  Inl e \<Rightarrow> (Raised e, [], w)
                | Inr os \<Rightarrow>
                    (Returned (Success_html customer_name'), [],
                     w\<lparr>orders := os, session_cart := None\<rparr>))
             else (Returned (Checkout_html total_price'), [], w)))"

subsection \<open>Registration\<close>

text \<open>
  \<open>register\<close>, with werkzeug's \<open>generate_password_hash\<close> as a parameter. A POST first looks
  for a user of the same name. \<open>set_password\<close> hashes the password and raises on \<open>None\<close>
  (the hash encodes its argument); the new user is an admin exactly when the table holds no
  user; the commit refuses a \<open>None\<close> username (\<open>nullable=False\<close>); \<open>login_user\<close> stores the
  new id in the session.
\<close>

definition register :: "(string \<Rightarrow> string) \<Rightarrow> world \<Rightarrow> http_method \<Rightarrow> fields \<Rightarrow> result" where
  "register generate_password_hash w method form =
     (if method = POST then
        (let username' = form ''username''; password = form ''password'' in
         if find (\<lambda>u. Some (username u) = username') (users w) \<noteq> None then
           (Returned (Redirect Register), [(''User already exists!'', ''danger'')], w)
         else
           (case password of
              None \<Rightarrow> (Raised AttributeError, [], w)
            | Some pw \<Rightarrow>
                (case username' of
                   None \<Rightarrow> (Raised IntegrityError, [], w)
                 | Some un \<Rightarrow>
                     (let new_user =
                            \<lparr>user_id = next_id (map user_id (users w)), username = un,
                             password_hash = generate_password_hash pw,
                             is_admin = (length (users w) = 0)\<rparr>
                      in (Returned (Redirect Home),
                          [(''Account created successfully!'', ''success'')],
                          w\<lparr>users := users w @ [new_user],
                            session_user := Some (user_id new_user)\<rparr>)))))
      else (Returned Register_html, [], w))"

text \<open>Registration requests, run one after the other.\<close>

fun run_register :: "(string \<Rightarrow> string) \<Rightarrow> world \<Rightarrow> (http_method \<times> fields) list \<Rightarrow> world" where
  "run_register h w [] = w"
| "run_register h w ((m, f) # reqs) = run_register h (after (register h w m f)) reqs"

text \<open>
  The registration step relation: the states reached from an empty User table by requests
  to \<open>register\<close>, each with any method, any form and any hash.
\<close>

inductive reg_reachable :: "world \<Rightarrow> bool" where
  start: "users w = [] \<Longrightarrow> reg_reachable w"
| step: "reg_reachable w \<Longrightarrow> reg_reachable (after (register h w m f))"

text \<open>The first row is an admin and no later row is.\<close>

definition first_admin_only :: "user list \<Rightarrow> bool" where
  "first_admin_only us =
     (case us of [] \<Rightarrow> True | u # rest \<Rightarrow> is_admin u \<and> list_all (\<lambda>v. \<not> is_admin v) rest)"

subsection \<open>The shop listing\<close>


















subsection \<open>Seeding\<close>

text \<open>The sample rows of \<open>setup_database\<close>: name, category, price, description.\<close>

definition seed_data :: "(string \<times> string \<times> real \<times> string) list" where
  "seed_data =
     [(''Mechanical Keycaps (Python Ed.)'', ''Hardware'', 49.99,
       ''Custom PBT keycaps in blue and yellow colors.''),
      (''Ultrawide Monitor Stand'', ''Hardware'', 120.00,
       ''Aluminum stand for your dual-monitor coding setup.''),
      (''Ergonomic Vertical Mouse'', ''Hardware'', 35.50,
       ''Save your wrist during long debugging sessions.''),
      (''Flask Pro Template'', ''Software'', 29.00,
       ''Production-ready boilerplate with Auth, Admin, and Stripe.''),
      (''API Access Key (Lifetime)'', ''Software'', 99.00,
       ''Unlimited requests to our machine learning backend.''),
      (''Cloud Deployment Script'', ''Software'', 15.00,
       ''Automated bash scripts for AWS/DigitalOcean.''),
      (''Developer Hoodie (Black)'', ''Merchandise'', 55.00,
       ''Heavyweight cotton. 'It works on my machine' print.''),
      (''Vacuum Insulated Mug'', ''Merchandise'', 22.00,
       ''Keeps your coffee hot for 6 hours while you code.''),
      (''Laptop Sticker Pack'', ''Merchandise'', 8.00,
       ''High-quality vinyl stickers: Python, Docker, Linux.''),
      (''Blue Light Glasses'', ''Accessories'', 45.00,
       ''Protect your eyes from screen fatigue.''),
      (''Desk Mat (900x400)'', ''Accessories'', 25.00,
       ''Smooth surface with code cheat sheets printed on it.'')]"

text \<open>
  One pass of the seeding loop: the row is added with no image and the next key. Its price
  is the double that the literal of the source denotes.
\<close>

fun seed_add :: "product list \<Rightarrow> string \<times> string \<times> real \<times> string \<Rightarrow> product list" where
  "seed_add ps (n, c, x, d) =
     ps @ [\<lparr>prod_id = next_id (map prod_id ps), name = n, price = round_double x,
            image_file = None,
            description = d, category = c\<rparr>]"

text \<open>A new database and a new session: no row, no file, no cart, nobody logged in.\<close>

definition empty_world :: world where
  "empty_world =
     \<lparr>users = [], products = [], orders = [], uploads = [], session_cart = None,
      session_user = None\<rparr>"

text \<open>
  \<open>setup_database\<close> seeds only a Product table that has no row. The upload folder it
  creates is not part of the state.
\<close>

definition setup_database :: "world \<Rightarrow> world" where
  "setup_database w =
     (if products w = [] then w\<lparr>products := foldl seed_add (products w) seed_data\<rparr> else w)"

text \<open>The Product table after the seeding of an empty one.\<close>

definition seeded_rows :: "product list" where
  "seeded_rows = foldl seed_add [] seed_data"

subsection \<open>The admin panel\<close>

text \<open>\<open>current_user\<close>: the user the session's id loads, if any.\<close>

definition current_user :: "world \<Rightarrow> user option" where
  "current_user w = (case session_user w of None \<Rightarrow> None | Some i \<Rightarrow> user_get (users w) i)"

text \<open>
  \<open>admin_panel\<close>, with Python's \<open>float\<close> on strings and werkzeug's \<open>secure_filename\<close> as
  parameters: \<open>py_float s\<close> is \<open>None\<close> where \<open>float(s)\<close> raises \<open>ValueError\<close>. \<open>login_required\<close>
  sends an anonymous visitor to the login page, and a user who is not an admin is sent
  home. On a POST the uploaded file, if it has a name, is saved first; then the Product is
  built, where \<open>float(None)\<close> raises \<open>TypeError\<close> and \<open>float\<close> of a string it cannot read
  raises \<open>ValueError\<close>; then it is committed, where a \<open>None\<close> name is refused
  (\<open>nullable=False\<close>) and a \<open>None\<close> description or category takes the column's default.
  Nothing catches these exceptions, and nothing looks at the sign of the price.
\<close>

definition admin_panel ::
  "(string \<Rightarrow> real option) \<Rightarrow> (string \<Rightarrow> string) \<Rightarrow> world \<Rightarrow> http_method \<Rightarrow> fields \<Rightarrow> fields \<Rightarrow> result" where
  "admin_panel py_float secure_filename w method form files =
     (case current_user w of
        None \<Rightarrow>
          (Returned (Redirect Login), [(''Please log in to access this page.'', ''message'')], w)
      | Some u \<Rightarrow>
          if \<not> is_admin u then
            (Returned (Redirect Home), [(''Access Denied.'', ''danger'')], w)
          else if method = POST then
            (let p_name = form ''product_name'';
                 p_price = form ''product_price'';
                 p_desc = form ''product_desc'';
                 p_cat = form ''product_category'';
                 filename = (case files ''product_image'' of
                               None \<Rightarrow> None
                             | Some fn \<Rightarrow> if fn = [] then None else Some (secure_filename fn));
                 w1 = (case filename of
                         None \<Rightarrow> w
                       | Some f \<Rightarrow> w\<lparr>uploads := uploads w @ [f]\<rparr>)
             in case p_price of
                  None \<Rightarrow> (Raised TypeError, [], w1)
                | Some s \<Rightarrow>
                    (case py_float s of
                       None \<Rightarrow> (Raised ValueError, [], w1)
                     | Some x \<Rightarrow>
                         (case p_name of
                            None \<Rightarrow> (Raised IntegrityError, [], w1)
                          | Some n \<Rightarrow>
                              (let new_product =
                                     \<lparr>prod_id = next_id (map prod_id (products w1)),
                                      name = n, price = x, image_file = filename,
                                      description = (case p_desc of None \<Rightarrow> [] | Some d \<Rightarrow> d),
                                      category = (case p_cat of
                                                    None \<Rightarrow> ''General''
                                                  | Some c \<Rightarrow> c)\<rparr>;
                                   w2 = w1\<lparr>products := products w1 @ [new_product]\<rparr>
                               in (Returned (Admin_html (products w2)),
                                   [(''Product Added!'', ''success'')], w2)))))
          else (Returned (Admin_html (products w)), [], w))"

text \<open>
  A reader of plain decimal literals (an optional sign, digits, an optional point and
  digits), which are among the strings \<open>float\<close> accepts; it rejects every other string.
  It stands for \<open>float\<close> where a concrete one is needed.
\<close>

definition digit_val :: "char \<Rightarrow> nat option" where
  "digit_val c =
     (let n = (of_char c :: nat) in if 48 \<le> n \<and> n \<le> 57 then Some (n - 48) else None)"

fun digits_val :: "string \<Rightarrow> nat \<Rightarrow> nat option" where
  "digits_val [] acc = Some acc"
| "digits_val (c # cs) acc =
     (case digit_val c of None \<Rightarrow> None | Some d \<Rightarrow> digits_val cs (10 * acc + d))"

definition unsigned_decimal :: "string \<Rightarrow> real option" where
  "unsigned_decimal s =
     (let ip = takeWhile (\<lambda>c. c \<noteq> CHR ''.'') s;
          fp = drop 1 (dropWhile (\<lambda>c. c \<noteq> CHR ''.'') s)
      in if ip = [] \<and> fp = [] then None
         else (case digits_val ip 0 of
                 None \<Rightarrow> None
               | Some a \<Rightarrow>
                   (case digits_val fp 0 of
                      None \<Rightarrow> None
                    | Some b \<Rightarrow> Some (real a + real b / 10 ^ length fp))))"

definition decimal_literal :: "string \<Rightarrow> real option" where
  "decimal_literal s =
     (case s of
        [] \<Rightarrow> None
      | c # cs \<Rightarrow>
          if c = CHR ''-'' then map_option uminus (unsigned_decimal cs)
          else if c = CHR ''+'' then unsigned_decimal cs
          else unsigned_decimal s)"

subsection \<open>Cart lemmas\<close>

lemma list_remove_remove1:
  "x \<in> set xs \<Longrightarrow> list_remove xs x = Inr (remove1 x xs)"
  by (induction xs) auto

lemma list_remove_split:
  "x \<notin> set pre \<Longrightarrow> list_remove (pre @ x # post) x = Inr (pre @ post)"
  by (induction pre) auto

lemma cart_ids_add:
  "cart_ids (after (add_to_cart w i r)) = cart_ids w @ [i]"
  by (simp add: add_to_cart_def after_def cart_ids_def Let_def split: option.splits)

lemma cart_ids_remove:
  "cart_ids (after (remove_from_cart w i)) = remove1 i (cart_ids w)"
  by (auto simp: remove_from_cart_def after_def cart_ids_def list_remove_remove1
      remove1_idem split: option.splits)

lemma cart_ids_request:
  "cart_ids (after (cart_request w op)) = spec_cart_op (cart_ids w) op"
  by (cases op) (simp_all add: cart_ids_add cart_ids_remove)

lemma cart_ids_run:
  "cart_ids (run_cart w ops) = foldl spec_cart_op (cart_ids w) ops"
  by (induction ops arbitrary: w) (simp_all add: cart_ids_request)

lemma remove_absent_unchanged:
  "i \<notin> set (cart_ids w) \<Longrightarrow> remove_from_cart w i = (Returned (Redirect View_cart), [], w)"
  by (simp add: remove_from_cart_def cart_ids_def split: option.splits)

lemma remove_from_cart_split:
  assumes "session_cart w = Some (pre @ i # post)" and "i \<notin> set pre"
  shows "remove_from_cart w i =
    (Returned (Redirect View_cart), [(''Item removed.'', ''info'')],
     w\<lparr>session_cart := Some (pre @ post)\<rparr>)"
  using assms by (simp add: remove_from_cart_def list_remove_split)

subsection \<open>Float lemmas\<close>

lemmas double_eval =
  round_double_def double_exp.simps pow2_def round_half_even_def double_of_real_def
  fsub_def is_finite_def

subsection \<open>Pricing lemmas\<close>

lemma product_get_in_range:
  "sqlite_int i \<Longrightarrow> product_get ps i = Inr (find (\<lambda>p. prod_id p = i) ps)"
  by (simp add: product_get_def)

lemma product_get_out_of_range:
  "\<not> sqlite_int i \<Longrightarrow> product_get ps i = Inl OverflowError"
  by (simp add: product_get_def)

lemma line_items_Nil: "line_items ps [] = []"
  by (simp add: line_items_def)

lemma line_items_Cons:
  "line_items ps (i # cart) =
     (case find (\<lambda>p. prod_id p = i) ps of None \<Rightarrow> [] | Some p \<Rightarrow> [p]) @ line_items ps cart"
  by (simp add: line_items_def)

lemma line_items_append: "line_items ps (xs @ ys) = line_items ps xs @ line_items ps ys"
  by (simp add: line_items_def)

lemma find_id_Some: "find (\<lambda>p. prod_id p = i) ps = Some p \<Longrightarrow> prod_id p = i \<and> p \<in> set ps"
  by (induction ps) (auto split: if_splits)

lemma find_id_None: "find (\<lambda>p. prod_id p = i) ps = None \<longleftrightarrow> i \<notin> set (map prod_id ps)"
  by (induction ps) auto

lemma line_items_ids:
  "map prod_id (line_items ps cart) = filter (\<lambda>i. i \<in> set (map prod_id ps)) cart"
proof (induction cart)
  case Nil
  show ?case by (simp add: line_items_Nil)
next
  case (Cons i cart)
  show ?case
  proof (cases "find (\<lambda>p. prod_id p = i) ps")
    case None
    then have "i \<notin> set (map prod_id ps)" by (simp add: find_id_None)
    with None Cons show ?thesis by (simp add: line_items_Cons)
  next
    case (Some p)
    then have "prod_id p = i" and "i \<in> set (map prod_id ps)"
      using find_id_Some [OF Some] by auto
    with Some Cons show ?thesis by (simp add: line_items_Cons)
  qed
qed

lemma line_items_subset: "set (line_items ps cart) \<subseteq> set ps"
  by (induction cart)
    (auto simp: line_items_Nil line_items_Cons split: option.splits
      dest: find_id_Some [OF sym])

lemma line_items_lookups:
  "map Some (line_items ps cart) =
     filter (\<lambda>r. r \<noteq> None) (map (\<lambda>i. find (\<lambda>p. prod_id p = i) ps) cart)"
  by (induction cart) (auto simp: line_items_Nil line_items_Cons)

lemma dangling_skipped:
  "i \<notin> set (map prod_id ps) \<Longrightarrow> line_items ps (xs @ i # ys) = line_items ps (xs @ ys)"
  using find_id_None [of i ps] by (simp add: line_items_append line_items_Cons)

lemma view_cart_loop_in_range:
  "list_all sqlite_int cart \<Longrightarrow>
   view_cart_loop ps cart acc t =
     Inr (acc @ line_items ps cart, foldl fadd t (prices (line_items ps cart)))"
  by (induction cart arbitrary: acc t)
    (simp_all add: line_items_Nil line_items_Cons product_get_in_range split: option.splits)

lemma view_cart_loop_out_of_range:
  "\<not> list_all sqlite_int cart \<Longrightarrow> view_cart_loop ps cart acc t = Inl OverflowError"
proof (induction cart arbitrary: acc t)
  case Nil
  then show ?case by simp
next
  case (Cons i cart)
  show ?case
  proof (cases "sqlite_int i")
    case True
    with Cons.prems have "\<not> list_all sqlite_int cart" by simp
    with Cons.IH True show ?thesis
      by (simp add: product_get_in_range split: option.splits)
  next
    case False
    then show ?thesis by (simp add: product_get_out_of_range)
  qed
qed

lemma checkout_prices_in_range:
  "list_all sqlite_int cart \<Longrightarrow> checkout_prices ps cart = Inr (prices (line_items ps cart))"
  by (induction cart)
    (simp_all add: line_items_Nil line_items_Cons product_get_in_range split: option.splits)

lemma checkout_prices_out_of_range:
  "\<not> list_all sqlite_int cart \<Longrightarrow> checkout_prices ps cart = Inl OverflowError"
proof (induction cart)
  case Nil
  then show ?case by simp
next
  case (Cons i cart)
  show ?case
  proof (cases "sqlite_int i")
    case True
    with Cons.prems have "\<not> list_all sqlite_int cart" by simp
    with Cons.IH True show ?thesis
      by (simp add: product_get_in_range split: option.splits)
  next
    case False
    then show ?thesis by (simp add: product_get_out_of_range)
  qed
qed

lemma checkout_total_eq:
  "checkout_total sv ps cart =
     (if list_all sqlite_int cart then Inr (py_sum sv (prices (line_items ps cart)))
      else Inl OverflowError)"
  by (simp add: checkout_total_def checkout_prices_in_range checkout_prices_out_of_range)

lemma view_cart_eq:
  "view_cart w =
     (if list_all sqlite_int (cart_ids w)
      then (Returned (Cart_html (line_items (products w) (cart_ids w))
              (foldl fadd (Finite 0) (prices (line_items (products w) (cart_ids w))))), [], w)
      else (Raised OverflowError, [], w))"
  by (simp add: view_cart_def view_cart_loop_in_range view_cart_loop_out_of_range)

subsection \<open>Checkout lemmas\<close>

lemma order_commit_Inr:
  "order_commit os cn ad t = Inr os' \<Longrightarrow>
   \<exists>n a. cn = Some n \<and> ad = Some a \<and> t \<noteq> NaN \<and>
     os' = os @ [\<lparr>order_id = next_id (map order_id os), customer_name = n, address = a,
                  total_price = t, status = ''Pending''\<rparr>]"
  by (auto simp: order_commit_def split: option.splits if_splits)

lemma order_commit_missing:
  "cn = None \<or> ad = None \<Longrightarrow> order_commit os cn ad t = Inl IntegrityError"
  by (auto simp: order_commit_def split: option.splits)

lemma checkout_get_eq:
  assumes "cart_ids w \<noteq> []"
  shows "checkout sv w GET form =
     (if list_all sqlite_int (cart_ids w)
      then (Returned (Checkout_html
              (py_sum sv (prices (line_items (products w) (cart_ids w))))), [], w)
      else (Raised OverflowError, [], w))"
  using assms by (simp add: checkout_def Let_def checkout_total_eq)

lemma checkout_post_out_of_range:
  assumes "cart_ids w \<noteq> []" and "\<not> list_all sqlite_int (cart_ids w)"
  shows "checkout sv w POST form = (Raised OverflowError, [], w)"
  using assms by (simp add: checkout_def Let_def checkout_total_eq)

lemma checkout_post_in_range:
  assumes "cart_ids w \<noteq> []" and "list_all sqlite_int (cart_ids w)"
  shows "checkout sv w POST form =
     (case order_commit (orders w) (form ''name'') (form ''address'')
             (py_sum sv (prices (line_items (products w) (cart_ids w)))) of
        Inl e \<Rightarrow> (Raised e, [], w)
      | Inr os \<Rightarrow> (Returned (Success_html (form ''name'')), [],
                    w\<lparr>orders := os, session_cart := None\<rparr>))"
  using assms by (simp add: checkout_def Let_def checkout_total_eq)

subsection \<open>The seeded catalog\<close>

lemma seeded_rows_eq:
  "seeded_rows =
     [\<lparr>prod_id = 1, name = ''Mechanical Keycaps (Python Ed.)'',
       price = 7035467042882847 / 140737488355328, image_file = None,
       description = ''Custom PBT keycaps in blue and yellow colors.'',
       category = ''Hardware''\<rparr>,
      \<lparr>prod_id = 2, name = ''Ultrawide Monitor Stand'', price = 120, image_file = None,
       description = ''Aluminum stand for your dual-monitor coding setup.'',
       category = ''Hardware''\<rparr>,
      \<lparr>prod_id = 3, name = ''Ergonomic Vertical Mouse'', price = 71 / 2, image_file = None,
       description = ''Save your wrist during long debugging sessions.'',
       category = ''Hardware''\<rparr>,
      \<lparr>prod_id = 4, name = ''Flask Pro Template'', price = 29, image_file = None,
       description = ''Production-ready boilerplate with Auth, Admin, and Stripe.'',
       category = ''Software''\<rparr>,
      \<lparr>prod_id = 5, name = ''API Access Key (Lifetime)'', price = 99, image_file = None,
       description = ''Unlimited requests to our machine learning backend.'',
       category = ''Software''\<rparr>,
      \<lparr>prod_id = 6, name = ''Cloud Deployment Script'', price = 15, image_file = None,
       description = ''Automated bash scripts for AWS/DigitalOcean.'',
       category = ''Software''\<rparr>,
      \<lparr>prod_id = 7, name = ''Developer Hoodie (Black)'', price = 55, image_file = None,
       description = ''Heavyweight cotton. 'It works on my machine' print.'',
       category = ''Merchandise''\<rparr>,
      \<lparr>prod_id = 8, name = ''Vacuum Insulated Mug'', price = 22, image_file = None,
       description = ''Keeps your coffee hot for 6 hours while you code.'',
       category = ''Merchandise''\<rparr>,
      \<lparr>prod_id = 9, name = ''Laptop Sticker Pack'', price = 8, image_file = None,
       description = ''High-quality vinyl stickers: Python, Docker, Linux.'',
       category = ''Merchandise''\<rparr>,
      \<lparr>prod_id = 10, name = ''Blue Light Glasses'', price = 45, image_file = None,
       description = ''Protect your eyes from screen fatigue.'',
       category = ''Accessories''\<rparr>,
      \<lparr>prod_id = 11, name = ''Desk Mat (900x400)'', price = 25, image_file = None,
       description = ''Smooth surface with code cheat sheets printed on it.'',
       category = ''Accessories''\<rparr>]"
  by (simp add: seeded_rows_def seed_data_def double_eval)

lemma seeded_any: "products w0 = [] \<Longrightarrow> products (setup_database w0) = seeded_rows"
  by (simp add: setup_database_def seeded_rows_def)

lemma seeded_products: "products (setup_database empty_world) = seeded_rows"
  by (simp add: seeded_any empty_world_def)

lemma seeded_ids: "map prod_id seeded_rows = [1, 2, 3, 4, 5, 6, 7, 8, 9, 10, 11]"
  by (simp add: seeded_rows_eq)

subsection \<open>Registration lemmas\<close>

lemma register_users:
  "users (after (register h w m f)) = users w \<or>
   (\<exists>u. users (after (register h w m f)) = users w @ [u] \<and> is_admin u = (users w = []))"
  by (simp add: register_def after_def Let_def split: option.splits)

lemma first_admin_only_snoc:
  "first_admin_only us \<Longrightarrow> is_admin u = (us = []) \<Longrightarrow> first_admin_only (us @ [u])"
  by (cases us) (simp_all add: first_admin_only_def)

lemma first_admin_only_step:
  "first_admin_only (users w) \<Longrightarrow> first_admin_only (users (after (register h w m f)))"
proof -
  assume inv: "first_admin_only (users w)"
  from register_users [of h w m f] show ?thesis
  proof
    assume "users (after (register h w m f)) = users w"
    with inv show ?thesis by simp
  next
    assume "\<exists>u. users (after (register h w m f)) = users w @ [u] \<and>
      is_admin u = (users w = [])"
    then obtain u where "users (after (register h w m f)) = users w @ [u]"
      and "is_admin u = (users w = [])" by blast
    with inv show ?thesis by (simp add: first_admin_only_snoc)
  qed
qed

lemma reg_reachable_invariant:
  "reg_reachable w \<Longrightarrow> first_admin_only (users w)"
proof (induction rule: reg_reachable.induct)
  case (start w)
  then show ?case by (simp add: first_admin_only_def)
next
  case (step w h m f)
  then show ?case by (simp add: first_admin_only_step)
qed

lemma run_register_reachable:
  "reg_reachable w \<Longrightarrow> reg_reachable (run_register h w reqs)"
proof (induction reqs arbitrary: w)
  case Nil
  then show ?case by simp
next
  case (Cons r reqs)
  obtain m f where r: "r = (m, f)" by (cases r)
  from Cons.prems have "reg_reachable (after (register h w m f))"
    by (rule reg_reachable.step)
  then show ?case using Cons.IH r by simp
qed

subsection \<open>Shop listing lemmas\<close>
























subsection \<open>Admin panel lemmas\<close>

lemma admin_panel_post:
  assumes "current_user w = Some u" and "is_admin u"
  shows "admin_panel py_float secure_filename w POST form files =
    (let filename = (case files ''product_image'' of
                       None \<Rightarrow> None
                     | Some fn \<Rightarrow> if fn = [] then None else Some (secure_filename fn));
         w1 = (case filename of None \<Rightarrow> w | Some f \<Rightarrow> w\<lparr>uploads := uploads w @ [f]\<rparr>)
     in case form ''product_price'' of
          None \<Rightarrow> (Raised TypeError, [], w1)
        | Some s \<Rightarrow>
            (case py_float s of
               None \<Rightarrow> (Raised ValueError, [], w1)
             | Some x \<Rightarrow>
                 (case form ''product_name'' of
                    None \<Rightarrow> (Raised IntegrityError, [], w1)
                  | Some n \<Rightarrow>
                      (let new_product =
                             \<lparr>prod_id = next_id (map prod_id (products w1)),
                              name = n, price = x, image_file = filename,
                              description = (case form ''product_desc'' of
                                               None \<Rightarrow> [] | Some d \<Rightarrow> d),
                              category = (case form ''product_category'' of
                                            None \<Rightarrow> ''General''
                                          | Some c \<Rightarrow> c)\<rparr>;
                           w2 = w1\<lparr>products := products w1 @ [new_product]\<rparr>
                       in (Returned (Admin_html (products w2)),
                           [(''Product Added!'', ''success'')], w2)))))"
  using assms by (simp add: admin_panel_def Let_def)

lemma decimal_literal_abc: "decimal_literal ''abc'' = None"
  by (simp add: decimal_literal_def unsigned_decimal_def digit_val_def)

lemma decimal_literal_minus5: "decimal_literal ''-5'' = Some (- 5)"
  by (simp add: decimal_literal_def unsigned_decimal_def digit_val_def)

subsection \<open>The cart: claims C8 and C9\<close>

text \<open>
  Claim C8. After any sequence of add and remove requests, the cart is what the contract
  gives (each add appended, each remove deleting the first occurrence, if any), and the
  count that \<open>inject_cart_count\<close> reports is the number of its entries, repeated ids
  counted each time. A remove of an id that is not in the cart changes nothing.
\<close>

theorem cart_count_after_requests:
  "inject_cart_count (run_cart w ops) = length (foldl spec_cart_op (cart_ids w) ops) \<and>
   cart_ids (run_cart w ops) = foldl spec_cart_op (cart_ids w) ops \<and>
   (i \<notin> set (cart_ids w) \<longrightarrow>
      remove_from_cart w i = (Returned (Redirect View_cart), [], w))"
  by (simp add: inject_cart_count_def cart_ids_run remove_absent_unchanged)

theorem cart_count_after_requests_witness:
  "inject_cart_count (run_cart empty_world [Add 7 None, Add 3 None, Add 7 None, Remove 5, Remove 7])
     = 2 \<and>
   cart_ids (run_cart empty_world [Add 7 None, Add 3 None, Add 7 None, Remove 5, Remove 7])
     = [3, 7] \<and>
   inject_cart_count (run_cart empty_world [Add 7 None, Add 7 None]) = 2 \<and>
   5 \<notin> set (cart_ids (empty_world\<lparr>session_cart := Some [7, 3, 7]\<rparr>)) \<and>
   remove_from_cart (empty_world\<lparr>session_cart := Some [7, 3, 7]\<rparr>) 5 =
     (Returned (Redirect View_cart), [], empty_world\<lparr>session_cart := Some [7, 3, 7]\<rparr>)"
proof -
  have e: "cart_ids empty_world = []"
    by (simp add: cart_ids_def empty_world_def)
  have a: "5 \<notin> set (cart_ids (empty_world\<lparr>session_cart := Some [7, 3, 7]\<rparr>))"
    by (simp add: cart_ids_def)
  show ?thesis
    using a
      cart_count_after_requests [of empty_world "[Add 7 None, Add 3 None, Add 7 None, Remove 5, Remove 7]" 0]
      cart_count_after_requests [of empty_world "[Add 7 None, Add 7 None]" 0]
      cart_count_after_requests [of "empty_world\<lparr>session_cart := Some [7, 3, 7]\<rparr>" "[]" 5]
    by (simp add: e)
qed

text \<open>
  Claim C9. In a cart that holds the id at least twice, \<open>remove_from_cart\<close> deletes the
  first occurrence only: the cart splits at the first occurrence into \<open>pre\<close>, the id and
  \<open>post\<close>, the new cart is \<open>pre @ post\<close>, and \<open>post\<close> still holds every later occurrence.
\<close>

theorem remove_first_occurrence_only:
  assumes "session_cart w = Some xs" and "2 \<le> count_list xs i"
  shows "\<exists>pre post. xs = pre @ i # post \<and> i \<notin> set pre \<and> i \<in> set post \<and>
    count_list post i = count_list xs i - 1 \<and>
    remove_from_cart w i =
      (Returned (Redirect View_cart), [(''Item removed.'', ''info'')],
       w\<lparr>session_cart := Some (pre @ post)\<rparr>)"
proof -
  from assms(2) have "count_list xs i \<noteq> 0" by simp
  then have "i \<in> set xs" by (simp add: count_list_0_iff)
  then obtain pre post where xs: "xs = pre @ i # post" and pre: "i \<notin> set pre"
    by (auto dest: split_list_first)
  from pre have "count_list pre i = 0" by (simp add: count_list_0_iff)
  with xs have c: "count_list post i = count_list xs i - 1" by simp
  with assms(2) have "count_list post i \<noteq> 0" by simp
  then have "i \<in> set post" by (simp add: count_list_0_iff)
  with xs pre c remove_from_cart_split [of w pre i post] assms(1) show ?thesis by blast
qed

theorem remove_first_occurrence_only_witness:
  "session_cart (empty_world\<lparr>session_cart := Some [3, 7, 4, 7, 7]\<rparr>) = Some [3, 7, 4, 7, 7] \<and>
   2 \<le> count_list [3, 7, 4, 7, 7] (7::int) \<and>
   remove_from_cart (empty_world\<lparr>session_cart := Some [3, 7, 4, 7, 7]\<rparr>) 7 =
     (Returned (Redirect View_cart), [(''Item removed.'', ''info'')],
      empty_world\<lparr>session_cart := Some [3, 4, 7, 7]\<rparr>)"
proof -
  let ?w = "empty_world\<lparr>session_cart := Some [3, 7, 4, 7, 7]\<rparr>"
  have a: "session_cart ?w = Some [3, 7, 4, 7, 7]" by simp
  have b: "2 \<le> count_list [3, 7, 4, 7, 7] (7::int)" by simp
  from remove_first_occurrence_only [OF a b] obtain pre post where
    xs: "[3, 7, 4, 7, 7] = pre @ 7 # post" and pre: "7 \<notin> set pre" and
    r: "remove_from_cart ?w 7 =
      (Returned (Redirect View_cart), [(''Item removed.'', ''info'')],
       ?w\<lparr>session_cart := Some (pre @ post)\<rparr>)"
    by blast
  from xs pre have "pre = [3] \<and> post = [4, 7, 7]"
    by (cases pre; cases "tl pre") (auto simp: Cons_eq_append_conv)
  with r a b show ?thesis by simp
qed

subsection \<open>Pricing: claims C1 and C10\<close>

text \<open>
  Claim C1. The claim asks that the total of \<open>checkout\<close> be the sum of the prices of the
  cart ids that resolve, an id that does not resolve adding nothing and raising nothing.
  For a cart whose ids SQLite can hold this is what \<open>checkout\<close> does: it shows the sum of
  the prices of the line items, which are the rows that the ids of the cart find in the
  Product table, in cart order; an id that finds no row is passed over. For a cart with an
  id of \<open>2 ^ 63\<close> or more, which the route of \<open>add_to_cart\<close> accepts and which no product
  carries, the lookup raises \<open>OverflowError\<close>, which nothing catches: GET and POST fail.
\<close>

theorem checkout_total_or_overflow:
  assumes "cart_ids w \<noteq> []"
  shows "checkout sv w GET form =
      (if list_all sqlite_int (cart_ids w)
       then (Returned (Checkout_html
               (py_sum sv (map (\<lambda>p. Finite (price p)) (line_items (products w) (cart_ids w))))),
             [], w)
       else (Raised OverflowError, [], w)) \<and>
    (\<not> list_all sqlite_int (cart_ids w) \<longrightarrow>
       checkout sv w POST form = (Raised OverflowError, [], w)) \<and>
    map Some (line_items (products w) (cart_ids w)) =
      filter (\<lambda>r. r \<noteq> None) (map (\<lambda>i. find (\<lambda>p. prod_id p = i) (products w)) (cart_ids w)) \<and>
    map prod_id (line_items (products w) (cart_ids w)) =
      filter (\<lambda>i. i \<in> set (map prod_id (products w))) (cart_ids w) \<and>
    set (line_items (products w) (cart_ids w)) \<subseteq> set (products w)"
  using checkout_get_eq [OF assms] checkout_post_out_of_range [OF assms]
    line_items_lookups line_items_ids line_items_subset by simp

theorem checkout_total_or_overflow_witness:
  "cart_ids ((setup_database empty_world)\<lparr>session_cart := Some [8, 9223372036854775808]\<rparr>) \<noteq> [] \<and>
   checkout Left_to_right
       ((setup_database empty_world)\<lparr>session_cart := Some [8, 9223372036854775808]\<rparr>) GET
       Map.empty =
     (Raised OverflowError, [],
      (setup_database empty_world)\<lparr>session_cart := Some [8, 9223372036854775808]\<rparr>) \<and>
   checkout Left_to_right
       ((setup_database empty_world)\<lparr>session_cart := Some [8, 9223372036854775808]\<rparr>) POST
       [''name'' \<mapsto> ''Ada'', ''address'' \<mapsto> ''1 Main St''] =
     (Raised OverflowError, [],
      (setup_database empty_world)\<lparr>session_cart := Some [8, 9223372036854775808]\<rparr>) \<and>
   checkout Left_to_right ((setup_database empty_world)\<lparr>session_cart := Some [8, 99, 9]\<rparr>) GET
       Map.empty =
     (Returned (Checkout_html (Finite 30)), [],
      (setup_database empty_world)\<lparr>session_cart := Some [8, 99, 9]\<rparr>) \<and>
   checkout Left_to_right ((setup_database empty_world)\<lparr>session_cart := Some [1, 8, 1]\<rparr>) GET
       Map.empty =
     (Returned (Checkout_html (Finite (268236856712233 / 2199023255552))), [],
      (setup_database empty_world)\<lparr>session_cart := Some [1, 8, 1]\<rparr>) \<and>
   checkout Compensated ((setup_database empty_world)\<lparr>session_cart := Some [1, 8, 1]\<rparr>) GET
       Map.empty =
     (Returned (Checkout_html (Finite (8583579414791455 / 70368744177664))), [],
      (setup_database empty_world)\<lparr>session_cart := Some [1, 8, 1]\<rparr>)"
proof -
  let ?big = "(setup_database empty_world)\<lparr>session_cart := Some [8, 9223372036854775808]\<rparr>"
  let ?a = "(setup_database empty_world)\<lparr>session_cart := Some [8, 99, 9]\<rparr>"
  let ?b = "(setup_database empty_world)\<lparr>session_cart := Some [1, 8, 1]\<rparr>"
  let ?form = "[''name'' \<mapsto> ''Ada'', ''address'' \<mapsto> ''1 Main St'']"
  have nbig: "cart_ids ?big \<noteq> []" and na: "cart_ids ?a \<noteq> []" and nb: "cart_ids ?b \<noteq> []"
    by (simp_all add: cart_ids_def)
  have rbig: "\<not> list_all sqlite_int (cart_ids ?big)"
    by (simp add: cart_ids_def sqlite_int_def)
  have ra: "list_all sqlite_int (cart_ids ?a)" and rb: "list_all sqlite_int (cart_ids ?b)"
    by (simp_all add: cart_ids_def sqlite_int_def)
  have ia: "map (\<lambda>p. Finite (price p)) (line_items (products ?a) (cart_ids ?a)) =
      [Finite 22, Finite 8]"
    by (simp add: cart_ids_def seeded_products seeded_rows_eq line_items_def)
  have ib: "map (\<lambda>p. Finite (price p)) (line_items (products ?b) (cart_ids ?b)) =
      [Finite (7035467042882847 / 140737488355328), Finite 22,
       Finite (7035467042882847 / 140737488355328)]"
    by (simp add: cart_ids_def seeded_products seeded_rows_eq line_items_def)
  have sa: "py_sum Left_to_right [Finite 22, Finite 8] = Finite 30"
    by (simp add: double_eval)
  have sb: "py_sum Left_to_right
      [Finite (7035467042882847 / 140737488355328), Finite 22,
       Finite (7035467042882847 / 140737488355328)] =
      Finite (268236856712233 / 2199023255552)"
    by (simp add: double_eval)
  have sc: "py_sum Compensated
      [Finite (7035467042882847 / 140737488355328), Finite 22,
       Finite (7035467042882847 / 140737488355328)] =
      Finite (8583579414791455 / 70368744177664)"
    by (simp add: double_eval Let_def)
  have g1: "checkout Left_to_right ?big GET Map.empty = (Raised OverflowError, [], ?big)"
    using checkout_total_or_overflow [OF nbig, of Left_to_right Map.empty, THEN conjunct1] rbig
    by (simp only: if_False)
  have g2: "checkout Left_to_right ?big POST ?form = (Raised OverflowError, [], ?big)"
    using checkout_total_or_overflow [OF nbig, of Left_to_right ?form, THEN conjunct2,
        THEN conjunct1] rbig
    by blast
  have g3: "checkout Left_to_right ?a GET Map.empty =
      (Returned (Checkout_html (Finite 30)), [], ?a)"
    using checkout_total_or_overflow [OF na, of Left_to_right Map.empty, THEN conjunct1] ra
    by (simp only: if_True ia sa)
  have g4: "checkout Left_to_right ?b GET Map.empty =
      (Returned (Checkout_html (Finite (268236856712233 / 2199023255552))), [], ?b)"
    using checkout_total_or_overflow [OF nb, of Left_to_right Map.empty, THEN conjunct1] rb
    by (simp only: if_True ib sb)
  have g5: "checkout Compensated ?b GET Map.empty =
      (Returned (Checkout_html (Finite (8583579414791455 / 70368744177664))), [], ?b)"
    using checkout_total_or_overflow [OF nb, of Compensated Map.empty, THEN conjunct1] rb
    by (simp only: if_True ib sc)
  from nbig g1 g2 g3 g4 g5 show ?thesis by blast
qed

text \<open>
  Claim C10. The claim asks that the cart view show, for every cart, the entries that
  resolve and the sum of their prices. For a cart whose ids SQLite can hold \<open>view_cart\<close>
  shows the line items, which are the rows that the ids of the cart find in the Product
  table, in cart order and one for each occurrence, and the total of their prices, added
  as floats from the left; it changes nothing. For a cart with an id of \<open>2 ^ 63\<close> or more
  the lookup raises \<open>OverflowError\<close> and no view is shown.
\<close>

theorem view_cart_items_or_overflow:
  "view_cart w =
     (if list_all sqlite_int (cart_ids w)
      then (Returned (Cart_html (line_items (products w) (cart_ids w))
              (foldl fadd (Finite 0)
                 (map (\<lambda>p. Finite (price p)) (line_items (products w) (cart_ids w))))),
            [], w)
      else (Raised OverflowError, [], w)) \<and>
   map Some (line_items (products w) (cart_ids w)) =
     filter (\<lambda>r. r \<noteq> None) (map (\<lambda>i. find (\<lambda>p. prod_id p = i) (products w)) (cart_ids w)) \<and>
   map prod_id (line_items (products w) (cart_ids w)) =
     filter (\<lambda>i. i \<in> set (map prod_id (products w))) (cart_ids w) \<and>
   set (line_items (products w) (cart_ids w)) \<subseteq> set (products w)"
  using view_cart_eq line_items_lookups line_items_ids line_items_subset by simp

theorem view_cart_items_or_overflow_witness:
  "view_cart ((setup_database empty_world)\<lparr>session_cart := Some [9223372036854775808]\<rparr>) =
     (Raised OverflowError, [],
      (setup_database empty_world)\<lparr>session_cart := Some [9223372036854775808]\<rparr>) \<and>
   view_cart ((setup_database empty_world)\<lparr>session_cart := Some [9, 99, 8, 9]\<rparr>) =
     (Returned (Cart_html
        [\<lparr>prod_id = 9, name = ''Laptop Sticker Pack'', price = 8, image_file = None,
          description = ''High-quality vinyl stickers: Python, Docker, Linux.'',
          category = ''Merchandise''\<rparr>,
         \<lparr>prod_id = 8, name = ''Vacuum Insulated Mug'', price = 22, image_file = None,
          description = ''Keeps your coffee hot for 6 hours while you code.'',
          category = ''Merchandise''\<rparr>,
         \<lparr>prod_id = 9, name = ''Laptop Sticker Pack'', price = 8, image_file = None,
          description = ''High-quality vinyl stickers: Python, Docker, Linux.'',
          category = ''Merchandise''\<rparr>] (Finite 38)),
      [], (setup_database empty_world)\<lparr>session_cart := Some [9, 99, 8, 9]\<rparr>) \<and>
   fst (view_cart ((setup_database empty_world)\<lparr>session_cart := Some [1, 3, 1]\<rparr>)) =
     Returned (Cart_html
        [\<lparr>prod_id = 1, name = ''Mechanical Keycaps (Python Ed.)'',
          price = 7035467042882847 / 140737488355328, image_file = None,
          description = ''Custom PBT keycaps in blue and yellow colors.'',
          category = ''Hardware''\<rparr>,
         \<lparr>prod_id = 3, name = ''Ergonomic Vertical Mouse'', price = 71 / 2, image_file = None,
          description = ''Save your wrist during long debugging sessions.'',
          category = ''Hardware''\<rparr>,
         \<lparr>prod_id = 1, name = ''Mechanical Keycaps (Python Ed.)'',
          price = 7035467042882847 / 140737488355328, image_file = None,
          description = ''Custom PBT keycaps in blue and yellow colors.'',
          category = ''Hardware''\<rparr>] (Finite (297923670662185 / 2199023255552)))"
proof -
  let ?big = "(setup_database empty_world)\<lparr>session_cart := Some [9223372036854775808]\<rparr>"
  let ?a = "(setup_database empty_world)\<lparr>session_cart := Some [9, 99, 8, 9]\<rparr>"
  let ?b = "(setup_database empty_world)\<lparr>session_cart := Some [1, 3, 1]\<rparr>"
  have rbig: "\<not> list_all sqlite_int (cart_ids ?big)"
    by (simp add: cart_ids_def sqlite_int_def)
  have ra: "list_all sqlite_int (cart_ids ?a)" and rb: "list_all sqlite_int (cart_ids ?b)"
    by (simp_all add: cart_ids_def sqlite_int_def)
  have ia: "line_items (products ?a) (cart_ids ?a) =
      [\<lparr>prod_id = 9, name = ''Laptop Sticker Pack'', price = 8, image_file = None,
        description = ''High-quality vinyl stickers: Python, Docker, Linux.'',
        category = ''Merchandise''\<rparr>,
       \<lparr>prod_id = 8, name = ''Vacuum Insulated Mug'', price = 22, image_file = None,
        description = ''Keeps your coffee hot for 6 hours while you code.'',
        category = ''Merchandise''\<rparr>,
       \<lparr>prod_id = 9, name = ''Laptop Sticker Pack'', price = 8, image_file = None,
        description = ''High-quality vinyl stickers: Python, Docker, Linux.'',
        category = ''Merchandise''\<rparr>]"
    by (simp add: cart_ids_def seeded_products seeded_rows_eq line_items_def)
  have ib: "line_items (products ?b) (cart_ids ?b) =
      [\<lparr>prod_id = 1, name = ''Mechanical Keycaps (Python Ed.)'',
        price = 7035467042882847 / 140737488355328, image_file = None,
        description = ''Custom PBT keycaps in blue and yellow colors.'',
        category = ''Hardware''\<rparr>,
       \<lparr>prod_id = 3, name = ''Ergonomic Vertical Mouse'', price = 71 / 2, image_file = None,
        description = ''Save your wrist during long debugging sessions.'',
        category = ''Hardware''\<rparr>,
       \<lparr>prod_id = 1, name = ''Mechanical Keycaps (Python Ed.)'',
        price = 7035467042882847 / 140737488355328, image_file = None,
        description = ''Custom PBT keycaps in blue and yellow colors.'',
        category = ''Hardware''\<rparr>]"
    by (simp add: cart_ids_def seeded_products seeded_rows_eq line_items_def)
  have sa: "foldl fadd (Finite 0) [Finite 8, Finite 22, Finite 8] = Finite 38"
    by (simp add: double_eval)
  have sb: "foldl fadd (Finite 0)
      [Finite (7035467042882847 / 140737488355328), Finite (71 / 2),
       Finite (7035467042882847 / 140737488355328)] =
      Finite (297923670662185 / 2199023255552)"
    by (simp add: double_eval)
  have g1: "view_cart ?big = (Raised OverflowError, [], ?big)"
    using view_cart_items_or_overflow [of ?big, THEN conjunct1] rbig
    by (simp only: if_False)
  have g2: "view_cart ?a = (Returned (Cart_html (line_items (products ?a) (cart_ids ?a))
      (foldl fadd (Finite 0)
         (map (\<lambda>p. Finite (price p)) (line_items (products ?a) (cart_ids ?a))))), [], ?a)"
    using view_cart_items_or_overflow [of ?a, THEN conjunct1] ra
    by (simp only: if_True)
  have g3: "view_cart ?b = (Returned (Cart_html (line_items (products ?b) (cart_ids ?b))
      (foldl fadd (Finite 0)
         (map (\<lambda>p. Finite (price p)) (line_items (products ?b) (cart_ids ?b))))), [], ?b)"
    using view_cart_items_or_overflow [of ?b, THEN conjunct1] rb
    by (simp only: if_True)
  from g2 have g2': "view_cart ?a = (Returned (Cart_html (line_items (products ?a) (cart_ids ?a))
      (Finite 38)), [], ?a)"
    unfolding ia using sa by simp
  from g3 have g3': "fst (view_cart ?b) = Returned (Cart_html (line_items (products ?b) (cart_ids ?b))
      (Finite (297923670662185 / 2199023255552)))"
    unfolding ib using sb by simp
  from g1 g2' g3' show ?thesis
    unfolding ia ib by blast
qed

subsection \<open>Checkout: claims C2, C3 and C7\<close>

text \<open>
  Claim C2. A POST to \<open>checkout\<close> with a cart that is not empty, when it returns, leaves
  no cart in the session and one more row in the Order table than before. The new row is
  the last and carries the submitted name and address; its \<open>total_price\<close> is the \<open>sum\<close> of
  the prices of the line items, the rows that the ids of the cart find in the Product
  table as it is at that request. A GET of \<open>checkout\<close> in the same state shows the same
  value. Products and users are unchanged.
\<close>

theorem checkout_post_one_order:
  assumes "cart_ids w \<noteq> []"
    and "checkout sv w POST form = (Returned r, fl, w')"
  shows "cart_ids w' = [] \<and> session_cart w' = None \<and>
    (\<exists>n a. form ''name'' = Some n \<and> form ''address'' = Some a \<and>
       orders w' = orders w @
         [\<lparr>order_id = next_id (map order_id (orders w)), customer_name = n, address = a,
           total_price =
             py_sum sv (map (\<lambda>p. Finite (price p)) (line_items (products w) (cart_ids w))),
           status = ''Pending''\<rparr>]) \<and>
    length (orders w') = length (orders w) + 1 \<and>
    checkout sv w GET form =
      (Returned (Checkout_html
         (py_sum sv (map (\<lambda>p. Finite (price p)) (line_items (products w) (cart_ids w))))),
       [], w) \<and>
    map Some (line_items (products w) (cart_ids w)) =
      filter (\<lambda>r. r \<noteq> None) (map (\<lambda>i. find (\<lambda>p. prod_id p = i) (products w)) (cart_ids w)) \<and>
    set (line_items (products w) (cart_ids w)) \<subseteq> set (products w) \<and>
    products w' = products w \<and> users w' = users w"
proof -
  let ?t = "py_sum sv (map (\<lambda>p. Finite (price p)) (line_items (products w) (cart_ids w)))"
  have range: "list_all sqlite_int (cart_ids w)"
  proof (rule ccontr)
    assume "\<not> list_all sqlite_int (cart_ids w)"
    with assms show False by (simp add: checkout_post_out_of_range)
  qed
  note post = checkout_post_in_range [OF assms(1) range, of sv form]
  show ?thesis
  proof (cases "order_commit (orders w) (form ''name'') (form ''address'') ?t")
    case (Inl e)
    with assms(2) post show ?thesis by simp
  next
    case (Inr os)
    from order_commit_Inr [OF Inr] obtain n a where
      f: "form ''name'' = Some n" "form ''address'' = Some a" and
      os: "os = orders w @
           [\<lparr>order_id = next_id (map order_id (orders w)), customer_name = n, address = a,
             total_price = ?t, status = ''Pending''\<rparr>]"
      by blast
    from assms(2) post Inr have w': "w' = w\<lparr>orders := os, session_cart := None\<rparr>"
      by simp
    have get: "checkout sv w GET form = (Returned (Checkout_html ?t), [], w)"
      using checkout_get_eq [OF assms(1), of sv form] range by simp
    show ?thesis
      using f line_items_lookups [of "products w" "cart_ids w"]
        line_items_subset [of "products w" "cart_ids w"]
      by (simp add: w' os get cart_ids_def)
  qed
qed

theorem checkout_post_one_order_witness:
  "cart_ids ((setup_database empty_world)\<lparr>session_cart := Some [1, 99, 8, 1]\<rparr>) \<noteq> [] \<and>
   checkout Left_to_right ((setup_database empty_world)\<lparr>session_cart := Some [1, 99, 8, 1]\<rparr>)
       POST [''name'' \<mapsto> ''Ada'', ''address'' \<mapsto> ''1 Main St''] =
     (Returned (Success_html (Some ''Ada'')), [],
      (setup_database empty_world)
        \<lparr>orders := [\<lparr>order_id = 1, customer_name = ''Ada'', address = ''1 Main St'',
                      total_price = Finite (268236856712233 / 2199023255552),
                      status = ''Pending''\<rparr>],
         session_cart := None\<rparr>) \<and>
   checkout Left_to_right ((setup_database empty_world)\<lparr>session_cart := Some [1, 99, 8, 1]\<rparr>)
       GET [''name'' \<mapsto> ''Ada'', ''address'' \<mapsto> ''1 Main St''] =
     (Returned (Checkout_html (Finite (268236856712233 / 2199023255552))), [],
      (setup_database empty_world)\<lparr>session_cart := Some [1, 99, 8, 1]\<rparr>) \<and>
   checkout Compensated ((setup_database empty_world)\<lparr>session_cart := Some [1, 99, 8, 1]\<rparr>)
       POST [''name'' \<mapsto> ''Ada'', ''address'' \<mapsto> ''1 Main St''] =
     (Returned (Success_html (Some ''Ada'')), [],
      (setup_database empty_world)
        \<lparr>orders := [\<lparr>order_id = 1, customer_name = ''Ada'', address = ''1 Main St'',
                      total_price = Finite (8583579414791455 / 70368744177664),
                      status = ''Pending''\<rparr>],
         session_cart := None\<rparr>) \<and>
   checkout Compensated ((setup_database empty_world)\<lparr>session_cart := Some [1, 99, 8, 1]\<rparr>)
       GET [''name'' \<mapsto> ''Ada'', ''address'' \<mapsto> ''1 Main St''] =
     (Returned (Checkout_html (Finite (8583579414791455 / 70368744177664))), [],
      (setup_database empty_world)\<lparr>session_cart := Some [1, 99, 8, 1]\<rparr>)"
proof -
  let ?w = "(setup_database empty_world)\<lparr>session_cart := Some [1, 99, 8, 1]\<rparr>"
  let ?form = "[''name'' \<mapsto> ''Ada'', ''address'' \<mapsto> ''1 Main St'']"
  let ?l = "Finite (268236856712233 / 2199023255552)"
  let ?c = "Finite (8583579414791455 / 70368744177664)"
  let ?wl = "(setup_database empty_world)
        \<lparr>orders := [\<lparr>order_id = 1, customer_name = ''Ada'', address = ''1 Main St'',
                      total_price = ?l, status = ''Pending''\<rparr>],
         session_cart := None\<rparr>"
  let ?wc = "(setup_database empty_world)
        \<lparr>orders := [\<lparr>order_id = 1, customer_name = ''Ada'', address = ''1 Main St'',
                      total_price = ?c, status = ''Pending''\<rparr>],
         session_cart := None\<rparr>"
  have ne: "cart_ids ?w \<noteq> []"
    by (simp add: cart_ids_def)
  have range: "list_all sqlite_int (cart_ids ?w)"
    by (simp add: cart_ids_def sqlite_int_def)
  have items: "map (\<lambda>p. Finite (price p)) (line_items (products ?w) (cart_ids ?w)) =
      [Finite (7035467042882847 / 140737488355328), Finite 22,
       Finite (7035467042882847 / 140737488355328)]"
    by (simp add: cart_ids_def seeded_products seeded_rows_eq line_items_def)
  have sl: "py_sum Left_to_right
      [Finite (7035467042882847 / 140737488355328), Finite 22,
       Finite (7035467042882847 / 140737488355328)] = ?l"
    by (simp add: double_eval)
  have sc: "py_sum Compensated
      [Finite (7035467042882847 / 140737488355328), Finite 22,
       Finite (7035467042882847 / 140737488355328)] = ?c"
    by (simp add: double_eval Let_def)
  have os: "orders ?w = []"
    by (simp add: setup_database_def empty_world_def)
  have pl: "checkout Left_to_right ?w POST ?form = (Returned (Success_html (Some ''Ada'')), [], ?wl)"
    unfolding checkout_post_in_range [OF ne range] items sl
    by (simp add: os order_commit_def)
  have pc: "checkout Compensated ?w POST ?form = (Returned (Success_html (Some ''Ada'')), [], ?wc)"
    unfolding checkout_post_in_range [OF ne range] items sc
    by (simp add: os order_commit_def)
  from checkout_post_one_order [OF ne pl]
  have "checkout Left_to_right ?w GET ?form =
      (Returned (Checkout_html (py_sum Left_to_right
         (map (\<lambda>p. Finite (price p)) (line_items (products ?w) (cart_ids ?w))))), [], ?w)"
    by blast
  then have gl: "checkout Left_to_right ?w GET ?form = (Returned (Checkout_html ?l), [], ?w)"
    unfolding items sl .
  from checkout_post_one_order [OF ne pc]
  have "checkout Compensated ?w GET ?form =
      (Returned (Checkout_html (py_sum Compensated
         (map (\<lambda>p. Finite (price p)) (line_items (products ?w) (cart_ids ?w))))), [], ?w)"
    by blast
  then have gc: "checkout Compensated ?w GET ?form = (Returned (Checkout_html ?c), [], ?w)"
    unfolding items sc .
  from ne pl gl pc gc show ?thesis by blast
qed

text \<open>
  Claim C3. A request to \<open>checkout\<close>, of either method and with any form, made while the
  cart is empty (the key absent, or an empty list) is redirected to the shop with the
  warning flashed, and the state after it is the state before it: no order is created,
  and the cart, the orders and the products are as they were.
\<close>

theorem checkout_empty_cart_no_change:
  assumes "cart_ids w = []"
  shows "checkout sv w method form =
    (Returned (Redirect Shop_page), [(''Your cart is empty.'', ''warning'')], w)"
  using assms by (simp add: checkout_def)

theorem checkout_empty_cart_no_change_witness:
  "cart_ids ((setup_database empty_world)\<lparr>session_cart := Some []\<rparr>) = [] \<and>
   cart_ids (setup_database empty_world) = [] \<and>
   checkout Left_to_right ((setup_database empty_world)\<lparr>session_cart := Some []\<rparr>) POST
     [''name'' \<mapsto> ''Ada'', ''address'' \<mapsto> ''1 Main St''] =
     (Returned (Redirect Shop_page), [(''Your cart is empty.'', ''warning'')],
      (setup_database empty_world)\<lparr>session_cart := Some []\<rparr>) \<and>
   checkout Compensated (setup_database empty_world) GET Map.empty =
     (Returned (Redirect Shop_page), [(''Your cart is empty.'', ''warning'')],
      setup_database empty_world)"
proof -
  have a: "cart_ids ((setup_database empty_world)\<lparr>session_cart := Some []\<rparr>) = []"
    by (simp add: cart_ids_def)
  have b: "cart_ids (setup_database empty_world) = []"
    by (simp add: cart_ids_def setup_database_def empty_world_def)
  show ?thesis
    using a b checkout_empty_cart_no_change [OF a] checkout_empty_cart_no_change [OF b]
    by simp
qed

text \<open>
  Claim C7. The claim asks that a POST to \<open>checkout\<close> with a cart that is not empty and
  the name or the address missing ends as a validation failure and not as an exception.
  The handler passes the missing field on as \<open>None\<close>, and the commit of the Order raises
  \<open>IntegrityError\<close>, which nothing catches; where the cart holds an id that SQLite cannot
  hold, the lookup has raised \<open>OverflowError\<close> before that. Either way the request ends
  in an exception and the state is unchanged.
\<close>

theorem checkout_missing_field_raises:
  assumes "cart_ids w \<noteq> []"
    and "form ''name'' = None \<or> form ''address'' = None"
  shows "checkout sv w POST form =
    (Raised (if list_all sqlite_int (cart_ids w) then IntegrityError else OverflowError), [], w)"
proof (cases "list_all sqlite_int (cart_ids w)")
  case True
  with assms show ?thesis
    by (simp add: checkout_post_in_range order_commit_missing)
next
  case False
  with assms show ?thesis
    by (simp add: checkout_post_out_of_range)
qed

theorem checkout_missing_field_raises_witness:
  "cart_ids ((setup_database empty_world)\<lparr>session_cart := Some [8]\<rparr>) \<noteq> [] \<and>
   [''address'' \<mapsto> ''1 Main St''] ''name'' = None \<and>
   checkout Left_to_right ((setup_database empty_world)\<lparr>session_cart := Some [8]\<rparr>) POST
     [''address'' \<mapsto> ''1 Main St''] =
     (Raised IntegrityError, [], (setup_database empty_world)\<lparr>session_cart := Some [8]\<rparr>) \<and>
   checkout Compensated ((setup_database empty_world)\<lparr>session_cart := Some [8]\<rparr>) POST
     [''address'' \<mapsto> ''1 Main St''] =
     (Raised IntegrityError, [], (setup_database empty_world)\<lparr>session_cart := Some [8]\<rparr>) \<and>
   checkout Left_to_right
     ((setup_database empty_world)\<lparr>session_cart := Some [8, 9223372036854775808]\<rparr>) POST
     [''address'' \<mapsto> ''1 Main St''] =
     (Raised OverflowError, [],
      (setup_database empty_world)\<lparr>session_cart := Some [8, 9223372036854775808]\<rparr>)"
proof -
  let ?w = "(setup_database empty_world)\<lparr>session_cart := Some [8]\<rparr>"
  let ?big = "(setup_database empty_world)\<lparr>session_cart := Some [8, 9223372036854775808]\<rparr>"
  let ?form = "[''address'' \<mapsto> ''1 Main St'']"
  have a: "cart_ids ?w \<noteq> []" and a': "cart_ids ?big \<noteq> []"
    by (simp_all add: cart_ids_def)
  have b: "?form ''name'' = None \<or> ?form ''address'' = None"
    by simp
  have c: "?form ''name'' = None"
    by simp
  have r: "list_all sqlite_int (cart_ids ?w)"
    by (simp add: cart_ids_def sqlite_int_def)
  have r': "\<not> list_all sqlite_int (cart_ids ?big)"
    by (simp add: cart_ids_def sqlite_int_def)
  from checkout_missing_field_raises [OF a b, of Left_to_right] r
  have g1: "checkout Left_to_right ?w POST ?form = (Raised IntegrityError, [], ?w)"
    by (simp only: if_True)
  from checkout_missing_field_raises [OF a b, of Compensated] r
  have g2: "checkout Compensated ?w POST ?form = (Raised IntegrityError, [], ?w)"
    by (simp only: if_True)
  from checkout_missing_field_raises [OF a' b, of Left_to_right] r'
  have g3: "checkout Left_to_right ?big POST ?form = (Raised OverflowError, [], ?big)"
    by (simp only: if_False)
  from a c g1 g2 g3 show ?thesis by blast
qed

subsection \<open>Registration: claim C4\<close>

text \<open>
  Claim C4. In every state reached from an empty User table by requests to \<open>register\<close>,
  the first row of the User table is an admin and no later row is; so it is after any
  list of registration requests run from such a table. Each request leaves the table as
  it is or appends one user, who is an admin exactly when the table was empty: the rows
  are in the order of registration.
\<close>

theorem first_registered_user_is_admin:
  "(reg_reachable w \<longrightarrow> first_admin_only (users w)) \<and>
   (users w0 = [] \<longrightarrow>
      reg_reachable (run_register h w0 reqs) \<and>
      first_admin_only (users (run_register h w0 reqs))) \<and>
   (users (after (register h w m f)) = users w \<or>
    (\<exists>u. users (after (register h w m f)) = users w @ [u] \<and> is_admin u = (users w = [])))"
proof (intro conjI impI)
  show "reg_reachable w \<Longrightarrow> first_admin_only (users w)"
    by (rule reg_reachable_invariant)
next
  assume "users w0 = []"
  then have "reg_reachable w0" by (rule reg_reachable.start)
  then show "reg_reachable (run_register h w0 reqs)" by (rule run_register_reachable)
  then show "first_admin_only (users (run_register h w0 reqs))"
    by (rule reg_reachable_invariant)
next
  show "users (after (register h w m f)) = users w \<or>
    (\<exists>u. users (after (register h w m f)) = users w @ [u] \<and> is_admin u = (users w = []))"
    by (rule register_users)
qed

theorem first_registered_user_is_admin_witness:
  "users empty_world = [] \<and>
   users (run_register (\<lambda>pw. ''#'' @ pw) empty_world
     [(POST, [''username'' \<mapsto> ''ann'', ''password'' \<mapsto> ''pw1'']),
      (GET, Map.empty),
      (POST, [''username'' \<mapsto> ''ann'', ''password'' \<mapsto> ''pw2'']),
      (POST, [''username'' \<mapsto> ''bob'']),
      (POST, [''username'' \<mapsto> ''bob'', ''password'' \<mapsto> ''pw3'']),
      (POST, [''username'' \<mapsto> ''cy'', ''password'' \<mapsto> ''pw4''])]) =
     [\<lparr>user_id = 1, username = ''ann'', password_hash = ''#pw1'', is_admin = True\<rparr>,
      \<lparr>user_id = 2, username = ''bob'', password_hash = ''#pw3'', is_admin = False\<rparr>,
      \<lparr>user_id = 3, username = ''cy'', password_hash = ''#pw4'', is_admin = False\<rparr>] \<and>
   first_admin_only
     [\<lparr>user_id = 1, username = ''ann'', password_hash = ''#pw1'', is_admin = True\<rparr>,
      \<lparr>user_id = 2, username = ''bob'', password_hash = ''#pw3'', is_admin = False\<rparr>,
      \<lparr>user_id = 3, username = ''cy'', password_hash = ''#pw4'', is_admin = False\<rparr>]"
proof -
  let ?reqs = "[(POST, [''username'' \<mapsto> ''ann'', ''password'' \<mapsto> ''pw1'']),
      (GET, Map.empty),
      (POST, [''username'' \<mapsto> ''ann'', ''password'' \<mapsto> ''pw2'']),
      (POST, [''username'' \<mapsto> ''bob'']),
      (POST, [''username'' \<mapsto> ''bob'', ''password'' \<mapsto> ''pw3'']),
      (POST, [''username'' \<mapsto> ''cy'', ''password'' \<mapsto> ''pw4''])]"
  have e: "users empty_world = []"
    by (simp add: empty_world_def)
  have run: "users (run_register (\<lambda>pw. ''#'' @ pw) empty_world ?reqs) =
     [\<lparr>user_id = 1, username = ''ann'', password_hash = ''#pw1'', is_admin = True\<rparr>,
      \<lparr>user_id = 2, username = ''bob'', password_hash = ''#pw3'', is_admin = False\<rparr>,
      \<lparr>user_id = 3, username = ''cy'', password_hash = ''#pw4'', is_admin = False\<rparr>]"
    by (simp add: register_def after_def empty_world_def Let_def)
  from first_registered_user_is_admin [of empty_world empty_world "\<lambda>pw. ''#'' @ pw" ?reqs] e
  have "first_admin_only (users (run_register (\<lambda>pw. ''#'' @ pw) empty_world ?reqs))"
    by blast
  with e run show ?thesis by simp
qed

subsection \<open>The shop listing: claim C5\<close>




subsection \<open>The admin panel: claim C6\<close>

text \<open>
  Claim C6. The claim asks that the admin panel take only a price that reads as a number
  that is not negative, and report a price it cannot read as a validation error. For an
  admin's POST the handler does neither: a price that \<open>float\<close> cannot read raises
  \<open>ValueError\<close>, which nothing catches (no product is created), and a price that reads is
  stored whatever its sign.
\<close>

theorem admin_panel_price_not_validated:
  assumes "current_user w = Some u" and "is_admin u"
    and "form ''product_price'' = Some s"
  shows "(py_float s = None \<longrightarrow>
            fst (admin_panel py_float secure_filename w POST form files) = Raised ValueError \<and>
            products (after (admin_panel py_float secure_filename w POST form files)) =
              products w) \<and>
         (py_float s = Some x \<and> form ''product_name'' = Some n \<longrightarrow>
            (\<exists>p. price p = x \<and> name p = n \<and>
               products (after (admin_panel py_float secure_filename w POST form files)) =
                 products w @ [p] \<and>
               fst (admin_panel py_float secure_filename w POST form files) =
                 Returned (Admin_html (products w @ [p]))))"
  using assms(3)
  by (auto simp: admin_panel_post [OF assms(1,2)] after_def Let_def split: option.splits)

theorem admin_panel_price_not_validated_witness:
  "current_user (after (register (\<lambda>pw. ''#'' @ pw) empty_world POST
       [''username'' \<mapsto> ''ann'', ''password'' \<mapsto> ''pw1''])) =
     Some \<lparr>user_id = 1, username = ''ann'', password_hash = ''#pw1'', is_admin = True\<rparr> \<and>
   decimal_literal ''abc'' = None \<and>
   fst (admin_panel decimal_literal (\<lambda>f. f)
         (after (register (\<lambda>pw. ''#'' @ pw) empty_world POST
            [''username'' \<mapsto> ''ann'', ''password'' \<mapsto> ''pw1'']))
         POST [''product_name'' \<mapsto> ''Mug'', ''product_price'' \<mapsto> ''abc''] Map.empty) =
     Raised ValueError \<and>
   decimal_literal ''-5'' = Some (- 5) \<and>
   map price (products (after (admin_panel decimal_literal (\<lambda>f. f)
         (after (register (\<lambda>pw. ''#'' @ pw) empty_world POST
            [''username'' \<mapsto> ''ann'', ''password'' \<mapsto> ''pw1'']))
         POST [''product_name'' \<mapsto> ''Mug'', ''product_price'' \<mapsto> ''-5''] Map.empty))) =
     [- 5]"
proof -
  let ?w = "after (register (\<lambda>pw. ''#'' @ pw) empty_world POST
       [''username'' \<mapsto> ''ann'', ''password'' \<mapsto> ''pw1''])"
  let ?u = "\<lparr>user_id = 1, username = ''ann'', password_hash = ''#pw1'', is_admin = True\<rparr>"
  have w: "?w = empty_world\<lparr>users := [?u], session_user := Some 1\<rparr>"
    by (simp add: register_def after_def empty_world_def Let_def)
  have u: "current_user ?w = Some ?u"
    unfolding w by (simp add: current_user_def user_get_def)
  have adm: "is_admin ?u"
    by simp
  have ps: "products ?w = []"
    unfolding w by (simp add: empty_world_def)
  have p1: "[''product_name'' \<mapsto> ''Mug'', ''product_price'' \<mapsto> ''abc''] ''product_price'' =
      Some ''abc''"
    by simp
  have p2: "[''product_name'' \<mapsto> ''Mug'', ''product_price'' \<mapsto> ''-5''] ''product_price'' =
      Some ''-5''"
    by simp
  have n2: "[''product_name'' \<mapsto> ''Mug'', ''product_price'' \<mapsto> ''-5''] ''product_name'' =
      Some ''Mug''"
    by simp
  from admin_panel_price_not_validated
    [where w = ?w and u = ?u and s = "''abc''" and py_float = decimal_literal
       and form = "[''product_name'' \<mapsto> ''Mug'', ''product_price'' \<mapsto> ''abc'']"
       and secure_filename = "\<lambda>f. f" and files = Map.empty, OF u adm p1]
    decimal_literal_abc
  have bad: "fst (admin_panel decimal_literal (\<lambda>f. f) ?w POST
      [''product_name'' \<mapsto> ''Mug'', ''product_price'' \<mapsto> ''abc''] Map.empty) =
        Raised ValueError"
    by blast
  from admin_panel_price_not_validated
    [where w = ?w and u = ?u and s = "''-5''" and py_float = decimal_literal
       and form = "[''product_name'' \<mapsto> ''Mug'', ''product_price'' \<mapsto> ''-5'']"
       and secure_filename = "\<lambda>f. f" and files = Map.empty and x = "- 5"
       and n = "''Mug''", OF u adm p2]
    decimal_literal_minus5 n2
  obtain p where "price p = - 5" and
    "products (after (admin_panel decimal_literal (\<lambda>f. f) ?w POST
      [''product_name'' \<mapsto> ''Mug'', ''product_price'' \<mapsto> ''-5''] Map.empty)) =
        products ?w @ [p]"
    by blast
  with ps have neg: "map price (products (after (admin_panel decimal_literal (\<lambda>f. f) ?w POST
      [''product_name'' \<mapsto> ''Mug'', ''product_price'' \<mapsto> ''-5''] Map.empty))) = [- 5]"
    by simp
  from u decimal_literal_abc bad decimal_literal_minus5 neg show ?thesis
    by blast
qed

end
